theory Spec2Isabelle
  imports Complex_Main "HOL-Library.Multiset"
begin

section \<open>Python exceptions\<close>

text \<open>
  Every \<open>raise\<close> of \<open>grasp.py\<close>, and every exception numpy or the interpreter raises on
  its behalf, is a value of this type.  A function that can raise returns \<open>error + 'a\<close>
  with \<open>Inl\<close> the exception.
\<close>

datatype error =
    TypeError | ValueError | AttributeError | IndexError | FileNotFoundError
  | NotImplementedError

section \<open>numpy arrays\<close>

text \<open>
  The value of an array: 0-dimensional, 1-dimensional, or 2-dimensional with its column
  count (so that an empty \<open>0 \<times> 17\<close> table differs from an empty \<open>0 \<times> 7\<close> one).
  An element is the real number that the stored \<open>float32\<close> holds; the values NaN and
  infinity are not represented.  The tables are \<open>float32\<close> arrays, as the constructors
  build them, so a table is compared with a Python constant in \<open>float32\<close>.
\<close>

datatype ndval = A0 real | A1 "real list" | A2 nat "real list list"

text \<open>
  Memory is a list of buffers; a buffer's address is its position.  An \<open>ndarray\<close> object
  either owns a buffer or is a view obtained from another array by basic indexing: one
  row (an integer index) or a selection of rows (a slice).  Writing through a view
  writes the buffer it comes from.
\<close>

type_synonym store = "ndval list"

datatype idx = IdxRow nat | IdxRows "nat list"

datatype ndarray = Own nat | Sub ndarray idx

fun base :: "ndarray \<Rightarrow> nat" where
  "base (Own b) = b"
| "base (Sub a _) = base a"

fun select :: "idx \<Rightarrow> ndval \<Rightarrow> ndval" where
  "select (IdxRow i) (A2 c t) = A1 (t ! i)"
| "select (IdxRow i) (A1 xs) = A0 (xs ! i)"
| "select (IdxRows js) (A2 c t) = A2 c (map (\<lambda>j. t ! j) js)"
| "select (IdxRows js) (A1 xs) = A1 (map (\<lambda>j. xs ! j) js)"
| "select _ (A0 x) = A0 x"

fun nd_get :: "store \<Rightarrow> ndarray \<Rightarrow> ndval" where
  "nd_get s (Own b) = s ! b"
| "nd_get s (Sub a i) = select i (nd_get s a)"

text \<open>The inverse of \<open>select\<close>: the array with the selected part replaced.\<close>

fun put_rows :: "nat list \<Rightarrow> 'a list \<Rightarrow> 'a list \<Rightarrow> 'a list" where
  "put_rows (j # js) (r # rs) t = put_rows js rs (t[j := r])"
| "put_rows _ _ t = t"

fun replace :: "idx \<Rightarrow> ndval \<Rightarrow> ndval \<Rightarrow> ndval" where
  "replace (IdxRow i) (A1 r) (A2 c t) = A2 c (t[i := r])"
| "replace (IdxRow i) (A0 x) (A1 xs) = A1 (xs[i := x])"
| "replace (IdxRows js) (A2 c' rs) (A2 c t) = A2 c (put_rows js rs t)"
| "replace (IdxRows js) (A1 ys) (A1 xs) = A1 (put_rows js ys xs)"
| "replace _ _ v = v"

text \<open>\<open>a[...] = v\<close>: assignment of new contents to an array, in place.\<close>

fun nd_assign :: "store \<Rightarrow> ndarray \<Rightarrow> ndval \<Rightarrow> store" where
  "nd_assign s (Own b) v = s[b := v]"
| "nd_assign s (Sub a i) v = nd_assign s a (replace i v (nd_get s a))"

text \<open>A new array object with its own buffer, and \<open>copy.deepcopy\<close> of an array.\<close>

definition np_new :: "store \<Rightarrow> ndval \<Rightarrow> ndarray \<times> store" where
  "np_new s v = (Own (length s), s @ [v])"

definition deepcopy :: "store \<Rightarrow> ndarray \<Rightarrow> ndarray \<times> store" where
  "deepcopy s a = np_new s (nd_get s a)"

text \<open>\<open>len(a)\<close>; a 0-dimensional array has no length.\<close>

fun np_len :: "ndval \<Rightarrow> error + nat" where
  "np_len (A0 x) = Inl TypeError"
| "np_len (A1 xs) = Inr (length xs)"
| "np_len (A2 c t) = Inr (length t)"

subsection \<open>Indexing\<close>

text \<open>An integer index counts from the end when negative and raises out of range.\<close>

definition norm_index :: "nat \<Rightarrow> int \<Rightarrow> error + nat" where
  "norm_index n i =
     (if 0 \<le> i \<and> i < int n then Inr (nat i)
      else if i < 0 \<and> - int n \<le> i then Inr (nat (i + int n))
      else Inl IndexError)"

text \<open>
  The positions a slice \<open>start:stop:step\<close> selects in a sequence of length \<open>len\<close>
  (CPython's \<open>slice.indices\<close>, which numpy uses for basic slicing).
\<close>

definition slice_adjust :: "int \<Rightarrow> int \<Rightarrow> int \<Rightarrow> int" where
  "slice_adjust n st i =
     (if i < 0 then (if i + n < 0 then (if st < 0 then - 1 else 0) else i + n)
      else if n \<le> i then (if st < 0 then n - 1 else n)
      else i)"

definition slice_indices ::
  "nat \<Rightarrow> int option \<Rightarrow> int option \<Rightarrow> int option \<Rightarrow> error + nat list" where
  "slice_indices len start stop step =
     (let n = int len;
          st = (case step of None \<Rightarrow> 1 | Some k \<Rightarrow> k)
      in if st = 0 then Inl ValueError
         else
           let lo = (case start of None \<Rightarrow> (if st < 0 then n - 1 else 0)
                                 | Some i \<Rightarrow> slice_adjust n st i);
               hi = (case stop of None \<Rightarrow> (if st < 0 then - 1 else n)
                                | Some i \<Rightarrow> slice_adjust n st i);
               cnt = (if st < 0
                      then (if hi < lo then (lo - hi - 1) div (- st) + 1 else 0)
                      else (if lo < hi then (hi - lo - 1) div st + 1 else 0))
           in Inr (map (\<lambda>k. nat (lo + int k * st)) [0..<nat cnt]))"

datatype pyindex = IndexInt int | IndexSlice "int option" "int option" "int option" | IndexOther

section \<open>The four classes\<close>

text \<open>
  An object of each class holds one attribute, a reference to an array.  A method that
  rebinds the attribute returns the object with the new reference; a method that
  allocates or writes arrays takes the store and returns the new one.
\<close>

record Grasp =
  grasp_array :: ndarray

record GraspGroup =
  grasp_group_array :: ndarray

record RectGrasp =
  rect_grasp_array :: ndarray

record RectGraspGroup =
  rect_grasp_group_array :: ndarray

text \<open>The Python values a caller can pass where the code inspects the argument's type.\<close>

datatype pyarg =
    ArgNdarray ndarray
  | ArgNum real
  | ArgGrasp Grasp
  | ArgRectGrasp RectGrasp
  | ArgList "pyarg list"

definition GRASP_ARRAY_LEN :: nat where
  "GRASP_ARRAY_LEN = 17"

definition RECT_GRASP_ARRAY_LEN :: nat where
  "RECT_GRASP_ARRAY_LEN = 7"

subsection \<open>Building arrays\<close>

text \<open>
  \<open>np.array(x)\<close> of a Python number is a 0-dimensional array, of a tuple or list of
  numbers a 1-dimensional one.
\<close>

datatype pyvalue = PyScalar real | PyTuple "real list"

fun np_array :: "pyvalue \<Rightarrow> ndval" where
  "np_array (PyScalar x) = A0 x"
| "np_array (PyTuple xs) = A1 xs"

fun ndim :: "ndval \<Rightarrow> nat" where
  "ndim (A0 x) = 0"
| "ndim (A1 xs) = 1"
| "ndim (A2 c t) = 2"

fun flat :: "ndval \<Rightarrow> real list" where
  "flat (A0 x) = [x]"
| "flat (A1 xs) = xs"
| "flat (A2 c t) = concat t"

fun rows_of :: "ndval \<Rightarrow> real list list" where
  "rows_of (A2 c t) = t"
| "rows_of _ = []"

fun ncols :: "ndval \<Rightarrow> nat" where
  "ncols (A2 c t) = c"
| "ncols _ = 0"

text \<open>\<open>a.reshape(-1)\<close> and \<open>a.reshape((-1, c))\<close>, the latter raising when the size is
  not a multiple of \<open>c\<close>.\<close>

definition reshape_flat :: "ndval \<Rightarrow> ndval" where
  "reshape_flat v = A1 (flat v)"

definition chunks :: "nat \<Rightarrow> 'a list \<Rightarrow> 'a list list" where
  "chunks c xs = map (\<lambda>k. take c (drop (k * c) xs)) [0..<length xs div c]"

definition reshape_rows :: "nat \<Rightarrow> ndval \<Rightarrow> error + ndval" where
  "reshape_rows c v =
     (if c = 0 then Inl ValueError
      else if length (flat v) mod c = 0 then Inr (A2 c (chunks c (flat v)))
      else Inl ValueError)"

text \<open>
  \<open>np.concatenate\<close> along the first axis: it raises ValueError on an empty sequence, on
  a 0-dimensional array, and when the arrays differ in their number of dimensions or
  (2-dimensional) in their number of columns.
\<close>

fun np_concatenate :: "ndval list \<Rightarrow> error + ndval" where
  "np_concatenate [] = Inl ValueError"
| "np_concatenate (A0 x # vs) = Inl ValueError"
| "np_concatenate (A1 xs # vs) =
     (if list_all (\<lambda>v. ndim v = 1) vs then Inr (A1 (xs @ concat (map flat vs)))
      else Inl ValueError)"
| "np_concatenate (A2 c t # vs) =
     (if list_all (\<lambda>v. ndim v = 2 \<and> ncols v = c) vs
      then Inr (A2 c (t @ concat (map rows_of vs)))
      else Inl ValueError)"

text \<open>\<open>a.astype(np.float32)\<close>, for a given rounding \<open>float32\<close> of one number.\<close>

fun astype :: "(real \<Rightarrow> real) \<Rightarrow> ndval \<Rightarrow> ndval" where
  "astype f (A0 x) = A0 (f x)"
| "astype f (A1 xs) = A1 (map f xs)"
| "astype f (A2 c t) = A2 c (map (map f) t)"

section \<open>Grasp\<close>

text \<open>
  \<open>Grasp.__init__(self, *args)\<close>.  The three shapes of \<open>args\<close> the code tells apart:
  one argument, the seven fields, any other count.  In the seven-field form
  \<open>np.array((object_id))\<close> is \<open>np.array\<close> of the parenthesised expression
  \<open>object_id\<close>, not of a one-element tuple.
\<close>

datatype grasp_args =
    Args1 pyarg
  | Args7 real real real real ndarray ndarray pyvalue
  | ArgsOther

fun Grasp_init :: "(real \<Rightarrow> real) \<Rightarrow> grasp_args \<Rightarrow> store \<Rightarrow> (error + Grasp) \<times> store" where
  "Grasp_init float32 (Args1 (ArgNdarray a)) s =
     (case deepcopy s a of (c, s') \<Rightarrow> (Inr \<lparr>grasp_array = c\<rparr>, s'))"
| "Grasp_init float32 (Args1 _) s = (Inl TypeError, s)"
| "Grasp_init float32 (Args7 score width height depth rotation_matrix translation object_id) s =
     (case np_concatenate
             [np_array (PyTuple [score, width, height, depth]),
              reshape_flat (nd_get s rotation_matrix),
              nd_get s translation,
              np_array object_id] of
        Inl e \<Rightarrow> (Inl e, s)
      | Inr v \<Rightarrow> (case np_new s (astype float32 v) of (c, s') \<Rightarrow> (Inr \<lparr>grasp_array = c\<rparr>, s')))"
| "Grasp_init float32 ArgsOther s = (Inl ValueError, s)"

section \<open>RectGrasp\<close>

datatype rect_grasp_args =
    RArgs1 pyarg
  | RArgs7 real real real real real real real
  | RArgsOther

fun RectGrasp_init ::
  "(real \<Rightarrow> real) \<Rightarrow> rect_grasp_args \<Rightarrow> store \<Rightarrow> (error + RectGrasp) \<times> store" where
  "RectGrasp_init float32 (RArgs1 (ArgNdarray a)) s =
     (case deepcopy s a of (c, s') \<Rightarrow> (Inr \<lparr>rect_grasp_array = c\<rparr>, s'))"
| "RectGrasp_init float32 (RArgs1 _) s = (Inl TypeError, s)"
| "RectGrasp_init float32 (RArgs7 center_x center_y open_x open_y height score object_id) s =
     (case np_new s (astype float32
             (np_array (PyTuple [center_x, center_y, open_x, open_y, height, score, object_id]))) of
        (c, s') \<Rightarrow> (Inr \<lparr>rect_grasp_array = c\<rparr>, s'))"
| "RectGrasp_init float32 RArgsOther s = (Inl ValueError, s)"

text \<open>\<open>to_grasp\<close> has the body \<open>pass\<close>: it returns None, whatever it is given.\<close>

datatype pynone = PyNone

definition RectGrasp_to_grasp :: "RectGrasp \<Rightarrow> 'a \<Rightarrow> 'b \<Rightarrow> 'c \<Rightarrow> error + pynone" where
  "RectGrasp_to_grasp self camera_intrinsics depths depth_method = Inr PyNone"

section \<open>GraspGroup\<close>

text \<open>
  \<open>GraspGroup.__init__(self, *args)\<close>.  With one argument the code binds
  \<open>grasp_list = args\<close>, the tuple of arguments itself, and the loop runs over that
  tuple: \<open>grasp\<close> is the argument, whose attribute \<open>grasp_array\<close> is read.
\<close>

fun getattr_grasp_array :: "pyarg \<Rightarrow> error + ndarray" where
  "getattr_grasp_array (ArgGrasp g) = Inr (grasp_array g)"
| "getattr_grasp_array _ = Inl AttributeError"

fun GraspGroup_init_loop ::
  "pyarg list \<Rightarrow> ndarray \<Rightarrow> store \<Rightarrow> (error + ndarray) \<times> store" where
  "GraspGroup_init_loop [] arr s = (Inr arr, s)"
| "GraspGroup_init_loop (grasp # rest) arr s =
     (case getattr_grasp_array grasp of
        Inl e \<Rightarrow> (Inl e, s)
      | Inr ga \<Rightarrow>
          (case reshape_rows GRASP_ARRAY_LEN (nd_get s ga) of
             Inl e \<Rightarrow> (Inl e, s)
           | Inr r \<Rightarrow>
               (case np_concatenate [nd_get s arr, r] of
                  Inl e \<Rightarrow> (Inl e, s)
                | Inr v \<Rightarrow>
                    (case np_new s v of (arr', s') \<Rightarrow> GraspGroup_init_loop rest arr' s'))))"

definition GraspGroup_init :: "pyarg list \<Rightarrow> store \<Rightarrow> (error + GraspGroup) \<times> store" where
  "GraspGroup_init args s =
     (if length args = 0 then
        (case np_new s (A2 GRASP_ARRAY_LEN []) of
           (arr, s') \<Rightarrow> (Inr \<lparr>grasp_group_array = arr\<rparr>, s'))
      else if length args = 1 then
        (case np_new s (A2 GRASP_ARRAY_LEN []) of
           (arr, s') \<Rightarrow>
             (case GraspGroup_init_loop args arr s' of
                (Inl e, s'') \<Rightarrow> (Inl e, s'')
              | (Inr arr', s'') \<Rightarrow> (Inr \<lparr>grasp_group_array = arr'\<rparr>, s'')))
      else (Inl ValueError, s))"

section \<open>RectGraspGroup\<close>

text \<open>
  \<open>RectGraspGroup.__init__(self, *args)\<close>: as for GraspGroup the loop runs over the
  tuple of arguments, and here it calls \<open>reshape\<close> on the argument itself, a method
  that only an array has.
\<close>

fun getattr_reshape :: "pyarg \<Rightarrow> error + ndarray" where
  "getattr_reshape (ArgNdarray a) = Inr a"
| "getattr_reshape _ = Inl AttributeError"

fun RectGraspGroup_init_loop ::
  "pyarg list \<Rightarrow> ndarray \<Rightarrow> store \<Rightarrow> (error + ndarray) \<times> store" where
  "RectGraspGroup_init_loop [] arr s = (Inr arr, s)"
| "RectGraspGroup_init_loop (rect_grasp # rest) arr s =
     (case getattr_reshape rect_grasp of
        Inl e \<Rightarrow> (Inl e, s)
      | Inr ra \<Rightarrow>
          (case reshape_rows RECT_GRASP_ARRAY_LEN (nd_get s ra) of
             Inl e \<Rightarrow> (Inl e, s)
           | Inr r \<Rightarrow>
               (case np_concatenate [nd_get s arr, r] of
                  Inl e \<Rightarrow> (Inl e, s)
                | Inr v \<Rightarrow>
                    (case np_new s v of (arr', s') \<Rightarrow> RectGraspGroup_init_loop rest arr' s'))))"

definition RectGraspGroup_init ::
  "pyarg list \<Rightarrow> store \<Rightarrow> (error + RectGraspGroup) \<times> store" where
  "RectGraspGroup_init args s =
     (if length args = 0 then
        (case np_new s (A2 RECT_GRASP_ARRAY_LEN []) of
           (arr, s') \<Rightarrow> (Inr \<lparr>rect_grasp_group_array = arr\<rparr>, s'))
      else if length args = 1 then
        (case np_new s (A2 RECT_GRASP_ARRAY_LEN []) of
           (arr, s') \<Rightarrow>
             (case RectGraspGroup_init_loop args arr s' of
                (Inl e, s'') \<Rightarrow> (Inl e, s'')
              | (Inr arr', s'') \<Rightarrow> (Inr \<lparr>rect_grasp_group_array = arr'\<rparr>, s'')))
      else (Inl ValueError, s))"

text \<open>\<open>to_grasp_group\<close> has the body \<open>pass\<close> as well.\<close>

definition RectGraspGroup_to_grasp_group ::
  "RectGraspGroup \<Rightarrow> 'a \<Rightarrow> 'b \<Rightarrow> 'c \<Rightarrow> error + pynone" where
  "RectGraspGroup_to_grasp_group self camera_intrinsics depths depth_method = Inr PyNone"

section \<open>Group methods\<close>

subsection \<open>More of numpy\<close>

fun ebind :: "error + 'a \<Rightarrow> ('a \<Rightarrow> error + 'b) \<Rightarrow> error + 'b" where
  "ebind (Inl e) f = Inl e"
| "ebind (Inr x) f = f x"

text \<open>
  \<open>a[i]\<close> for a Python int: a view of row \<open>i\<close> of a 2-dimensional array, the element
  itself (a number, not an array) of a 1-dimensional one.  \<open>a[start:stop:step]\<close> is a
  view of the selected positions.
\<close>

definition nd_getitem_int :: "store \<Rightarrow> ndarray \<Rightarrow> int \<Rightarrow> error + pyarg" where
  "nd_getitem_int s a i =
     (case nd_get s a of
        A0 x \<Rightarrow> Inl IndexError
      | A1 xs \<Rightarrow> ebind (norm_index (length xs) i) (\<lambda>j. Inr (ArgNum (xs ! j)))
      | A2 c t \<Rightarrow> ebind (norm_index (length t) i) (\<lambda>j. Inr (ArgNdarray (Sub a (IdxRow j)))))"

definition nd_getitem_slice ::
  "store \<Rightarrow> ndarray \<Rightarrow> int option \<Rightarrow> int option \<Rightarrow> int option \<Rightarrow> error + ndarray" where
  "nd_getitem_slice s a start stop step =
     (case np_len (nd_get s a) of
        Inl e \<Rightarrow> Inl IndexError
      | Inr n \<Rightarrow> ebind (slice_indices n start stop step) (\<lambda>js. Inr (Sub a (IdxRows js))))"

text \<open>\<open>a[:, k]\<close> and \<open>a[:, lo:hi]\<close> (for \<open>0 \<le> lo \<le> hi\<close>), read as values.\<close>

definition np_column :: "nat \<Rightarrow> ndval \<Rightarrow> error + real list" where
  "np_column k v =
     (case v of
        A2 c t \<Rightarrow> (if k < c then Inr (map (\<lambda>r. r ! k) t) else Inl IndexError)
      | _ \<Rightarrow> Inl IndexError)"


text \<open>
  \<open>np.argsort\<close>: the positions of the elements in ascending order of value.  Equal
  values are kept in their order here; numpy's default sort leaves their order open,
  and nothing that is proved of the sorting depends on the order of equal values.
\<close>

definition np_argsort :: "real list \<Rightarrow> nat list" where
  "np_argsort xs = map snd (sort_key fst (zip xs [0..<length xs]))"


text \<open>
  \<open>np.random.shuffle(a)\<close>: numpy's loop \<open>for i in reversed(range(1, n))\<close>, which swaps
  position \<open>i\<close> with a position \<open>j\<close> drawn from \<open>0..i\<close>, in place along the first axis.
  The generator is the function \<open>rng\<close>: the draw at step \<open>i\<close> is \<open>rng i mod (i + 1)\<close>.
\<close>

fun shuffle_loop :: "(nat \<Rightarrow> nat) \<Rightarrow> nat \<Rightarrow> 'a list \<Rightarrow> 'a list" where
  "shuffle_loop rng 0 xs = xs"
| "shuffle_loop rng (Suc i) xs =
     (let j = rng (Suc i) mod (Suc (Suc i))
      in shuffle_loop rng i (xs[Suc i := xs ! j, j := xs ! Suc i]))"

definition shuffle :: "(nat \<Rightarrow> nat) \<Rightarrow> 'a list \<Rightarrow> 'a list" where
  "shuffle rng xs = shuffle_loop rng (length xs - 1) xs"

definition np_random_shuffle :: "(nat \<Rightarrow> nat) \<Rightarrow> ndarray \<Rightarrow> store \<Rightarrow> error + store" where
  "np_random_shuffle rng a s =
     (case nd_get s a of
        A0 x \<Rightarrow> Inl TypeError
      | A1 xs \<Rightarrow> Inr (nd_assign s a (A1 (shuffle rng xs)))
      | A2 c t \<Rightarrow> Inr (nd_assign s a (A2 c (shuffle rng t))))"

text \<open>\<open>int(x)\<close> drops the fraction; a Python int is unbounded.\<close>

definition py_int :: "real \<Rightarrow> int" where
  "py_int x = (if 0 \<le> x then \<lfloor>x\<rfloor> else \<lceil>x\<rceil>)"


text \<open>
  The constant \<open>0.99\<close> as \<open>float32\<close>, which is what a \<open>float32\<close> array is compared
  with: between \<open>1/2\<close> and \<open>1\<close> the \<open>float32\<close> numbers are the multiples of \<open>2^-24\<close>,
  \<open>0.99 * 2^24 = 16609443.84\<close>, and the nearest multiple is \<open>16609444 / 2^24\<close>.
\<close>

definition float32_0_99 :: real where
  "float32_0_99 = 16609444 / 2 ^ 24"

subsection \<open>Files\<close>

text \<open>
  The \<open>.npy\<close> files, by path.  \<open>np.save\<close> appends \<open>.npy\<close> to a path that does not end
  with it; \<open>np.load\<close> opens the path as given.
\<close>

type_synonym files = "string \<rightharpoonup> ndval"

definition endswith :: "string \<Rightarrow> string \<Rightarrow> bool" where
  "endswith p suffix =
     (length suffix \<le> length p \<and> drop (length p - length suffix) p = suffix)"

definition npy_path :: "string \<Rightarrow> string" where
  "npy_path p = (if endswith p ''.npy'' then p else p @ ''.npy'')"

definition np_save :: "string \<Rightarrow> ndval \<Rightarrow> files \<Rightarrow> files" where
  "np_save p v fs = fs(npy_path p \<mapsto> v)"

definition np_load :: "string \<Rightarrow> files \<Rightarrow> error + ndval" where
  "np_load p fs = (case fs p of None \<Rightarrow> Inl FileNotFoundError | Some v \<Rightarrow> Inr v)"

subsection \<open>GraspGroup\<close>

definition GraspGroup_len :: "GraspGroup \<Rightarrow> store \<Rightarrow> error + nat" where
  "GraspGroup_len self s = np_len (nd_get s (grasp_group_array self))"

datatype grasp_item = ItemGrasp Grasp | ItemGraspGroup GraspGroup

fun GraspGroup_getitem ::
  "(real \<Rightarrow> real) \<Rightarrow> GraspGroup \<Rightarrow> pyindex \<Rightarrow> store \<Rightarrow> (error + grasp_item) \<times> store" where
  "GraspGroup_getitem float32 self (IndexInt index) s =
     (case nd_getitem_int s (grasp_group_array self) index of
        Inl e \<Rightarrow> (Inl e, s)
      | Inr row \<Rightarrow>
          (case Grasp_init float32 (Args1 row) s of
             (Inl e, s') \<Rightarrow> (Inl e, s')
           | (Inr g, s') \<Rightarrow> (Inr (ItemGrasp g), s')))"
| "GraspGroup_getitem float32 self (IndexSlice start stop step) s =
     (case GraspGroup_init [] s of
        (Inl e, s1) \<Rightarrow> (Inl e, s1)
      | (Inr graspgroup, s1) \<Rightarrow>
          (case nd_getitem_slice s1 (grasp_group_array self) start stop step of
             Inl e \<Rightarrow> (Inl e, s1)
           | Inr v \<Rightarrow>
               (case deepcopy s1 v of
                  (c, s2) \<Rightarrow> (Inr (ItemGraspGroup (graspgroup\<lparr>grasp_group_array := c\<rparr>)), s2))))"
| "GraspGroup_getitem float32 self IndexOther s = (Inl TypeError, s)"

definition GraspGroup_scores :: "GraspGroup \<Rightarrow> store \<Rightarrow> error + real list" where
  "GraspGroup_scores self s = np_column 0 (nd_get s (grasp_group_array self))"






definition GraspGroup_from_npy ::
  "GraspGroup \<Rightarrow> string \<Rightarrow> files \<Rightarrow> store \<Rightarrow> (error + GraspGroup) \<times> store" where
  "GraspGroup_from_npy self npy_file_path fs s =
     (case np_load npy_file_path fs of
        Inl e \<Rightarrow> (Inl e, s)
      | Inr v \<Rightarrow> (case np_new s v of (a, s') \<Rightarrow> (Inr (self\<lparr>grasp_group_array := a\<rparr>), s')))"

definition GraspGroup_save_npy :: "GraspGroup \<Rightarrow> string \<Rightarrow> store \<Rightarrow> files \<Rightarrow> files" where
  "GraspGroup_save_npy self npy_file_path s fs =
     np_save npy_file_path (nd_get s (grasp_group_array self)) fs"

text \<open>\<open>self.grasp_group_array[index]\<close> with an array of positions is a new array.\<close>

definition GraspGroup_sort_by_score ::
  "GraspGroup \<Rightarrow> bool \<Rightarrow> store \<Rightarrow> (error + GraspGroup) \<times> store" where
  "GraspGroup_sort_by_score self reverse s =
     (case np_column 0 (nd_get s (grasp_group_array self)) of
        Inl e \<Rightarrow> (Inl e, s)
      | Inr score \<Rightarrow>
          (let index = np_argsort score;
               index = (if \<not> reverse then rev index else index)
           in case np_new s (select (IdxRows index) (nd_get s (grasp_group_array self))) of
                (a, s') \<Rightarrow> (Inr (self\<lparr>grasp_group_array := a\<rparr>), s')))"

definition GraspGroup_random_sample ::
  "(nat \<Rightarrow> nat) \<Rightarrow> GraspGroup \<Rightarrow> int \<Rightarrow> store \<Rightarrow> (error + GraspGroup) \<times> store" where
  "GraspGroup_random_sample rng self numGrasp s =
     (case GraspGroup_len self s of
        Inl e \<Rightarrow> (Inl e, s)
      | Inr n \<Rightarrow>
          if numGrasp > int n then (Inl ValueError, s)
          else
            (case deepcopy s (grasp_group_array self) of
               (shuffled_grasp_group_array, s1) \<Rightarrow>
                 (case np_random_shuffle rng shuffled_grasp_group_array s1 of
                    Inl e \<Rightarrow> (Inl e, s1)
                  | Inr s2 \<Rightarrow>
                      (case GraspGroup_init [] s2 of
                         (Inl e, s3) \<Rightarrow> (Inl e, s3)
                       | (Inr shuffled_grasp_group, s3) \<Rightarrow>
                           (case nd_getitem_slice s3 shuffled_grasp_group_array
                                   None (Some numGrasp) None of
                              Inl e \<Rightarrow> (Inl e, s3)
                            | Inr v \<Rightarrow>
                                (case deepcopy s3 v of
                                   (c, s4) \<Rightarrow>
                                     (Inr (shuffled_grasp_group\<lparr>grasp_group_array := c\<rparr>),
                                      s4)))))))"

subsection \<open>RectGraspGroup\<close>

definition RectGraspGroup_len :: "RectGraspGroup \<Rightarrow> store \<Rightarrow> error + nat" where
  "RectGraspGroup_len self s = np_len (nd_get s (rect_grasp_group_array self))"

datatype rect_grasp_item = ItemRectGrasp RectGrasp | ItemRectGraspGroup RectGraspGroup

fun RectGraspGroup_getitem ::
  "(real \<Rightarrow> real) \<Rightarrow> RectGraspGroup \<Rightarrow> pyindex \<Rightarrow> store
     \<Rightarrow> (error + rect_grasp_item) \<times> store" where
  "RectGraspGroup_getitem float32 self (IndexInt index) s =
     (case nd_getitem_int s (rect_grasp_group_array self) index of
        Inl e \<Rightarrow> (Inl e, s)
      | Inr row \<Rightarrow>
          (case RectGrasp_init float32 (RArgs1 row) s of
             (Inl e, s') \<Rightarrow> (Inl e, s')
           | (Inr g, s') \<Rightarrow> (Inr (ItemRectGrasp g), s')))"
| "RectGraspGroup_getitem float32 self (IndexSlice start stop step) s =
     (case RectGraspGroup_init [] s of
        (Inl e, s1) \<Rightarrow> (Inl e, s1)
      | (Inr rectgraspgroup, s1) \<Rightarrow>
          (case nd_getitem_slice s1 (rect_grasp_group_array self) start stop step of
             Inl e \<Rightarrow> (Inl e, s1)
           | Inr v \<Rightarrow>
               (case deepcopy s1 v of
                  (c, s2) \<Rightarrow>
                    (Inr (ItemRectGraspGroup (rectgraspgroup\<lparr>rect_grasp_group_array := c\<rparr>)),
                     s2))))"
| "RectGraspGroup_getitem float32 self IndexOther s = (Inl TypeError, s)"

definition RectGraspGroup_from_npy ::
  "RectGraspGroup \<Rightarrow> string \<Rightarrow> files \<Rightarrow> store \<Rightarrow> (error + RectGraspGroup) \<times> store" where
  "RectGraspGroup_from_npy self npy_file_path fs s =
     (case np_load npy_file_path fs of
        Inl e \<Rightarrow> (Inl e, s)
      | Inr v \<Rightarrow>
          (case np_new s v of (a, s') \<Rightarrow> (Inr (self\<lparr>rect_grasp_group_array := a\<rparr>), s')))"

definition RectGraspGroup_save_npy :: "RectGraspGroup \<Rightarrow> string \<Rightarrow> store \<Rightarrow> files \<Rightarrow> files" where
  "RectGraspGroup_save_npy self npy_file_path s fs =
     np_save npy_file_path (nd_get s (rect_grasp_group_array self)) fs"

definition RectGraspGroup_sort_by_score ::
  "RectGraspGroup \<Rightarrow> bool \<Rightarrow> store \<Rightarrow> (error + RectGraspGroup) \<times> store" where
  "RectGraspGroup_sort_by_score self reverse s =
     (case np_column 5 (nd_get s (rect_grasp_group_array self)) of
        Inl e \<Rightarrow> (Inl e, s)
      | Inr score \<Rightarrow>
          (let index = np_argsort score;
               index = (if \<not> reverse then rev index else index)
           in case np_new s (select (IdxRows index) (nd_get s (rect_grasp_group_array self))) of
                (a, s') \<Rightarrow> (Inr (self\<lparr>rect_grasp_group_array := a\<rparr>), s')))"

definition RectGraspGroup_random_sample ::
  "(nat \<Rightarrow> nat) \<Rightarrow> RectGraspGroup \<Rightarrow> int \<Rightarrow> store \<Rightarrow> (error + RectGraspGroup) \<times> store" where
  "RectGraspGroup_random_sample rng self numGrasp s =
     (case RectGraspGroup_len self s of
        Inl e \<Rightarrow> (Inl e, s)
      | Inr n \<Rightarrow>
          if numGrasp > int n then (Inl ValueError, s)
          else
            (case deepcopy s (rect_grasp_group_array self) of
               (shuffled_rect_grasp_group_array, s1) \<Rightarrow>
                 (case np_random_shuffle rng shuffled_rect_grasp_group_array s1 of
                    Inl e \<Rightarrow> (Inl e, s1)
                  | Inr s2 \<Rightarrow>
                      (case RectGraspGroup_init [] s2 of
                         (Inl e, s3) \<Rightarrow> (Inl e, s3)
                       | (Inr shuffled_rect_grasp_group, s3) \<Rightarrow>
                           (case nd_getitem_slice s3 shuffled_rect_grasp_group_array
                                   None (Some numGrasp) None of
                              Inl e \<Rightarrow> (Inl e, s3)
                            | Inr v \<Rightarrow>
                                (case deepcopy s3 v of
                                   (c, s4) \<Rightarrow>
                                     (Inr (shuffled_rect_grasp_group
                                             \<lparr>rect_grasp_group_array := c\<rparr>),
                                      s4)))))))"

subsection \<open>From grasps to rectangles\<close>





subsection \<open>Drawing a rectangle\<close>

type_synonym point = "real \<times> real"

definition vadd :: "point \<Rightarrow> point \<Rightarrow> point" where
  "vadd p q = (fst p + fst q, snd p + snd q)"

definition vsub :: "point \<Rightarrow> point \<Rightarrow> point" where
  "vsub p q = (fst p - fst q, snd p - snd q)"

definition vmul :: "point \<Rightarrow> real \<Rightarrow> point" where
  "vmul p k = (fst p * k, snd p * k)"

definition vdiv :: "point \<Rightarrow> real \<Rightarrow> point" where
  "vdiv p k = (fst p / k, snd p / k)"

definition linalg_norm :: "point \<Rightarrow> real" where
  "linalg_norm p = sqrt ((fst p)\<^sup>2 + (snd p)\<^sup>2)"

text \<open>
  Lines 401 to 410 of \<open>RectGrasp.to_opencv_image\<close>, on the contents \<open>arr\<close> of a
  1-dimensional \<open>rect_grasp_array\<close>: the corners \<open>p1\<close>, \<open>p2\<close>, \<open>p3\<close>, \<open>p4\<close>.  Unpacking another number
  of values raises ValueError.  When the open point is the center the norm is 0 and
  numpy's division gives NaN, on which the \<open>int(...)\<close> of the first \<open>cv2.line\<close> raises
  ValueError; that case is the error here.
\<close>

definition to_opencv_image_corners :: "real list \<Rightarrow> error + point \<times> point \<times> point \<times> point" where
  "to_opencv_image_corners arr =
     (case arr of
        [center_x, center_y, open_x, open_y, height, score, object_id] \<Rightarrow>
          (let center = (center_x, center_y);
               left = (open_x, open_y);
               axis = vsub left center;
               normal = (- snd axis, fst axis)
           in if linalg_norm normal = 0 then Inl ValueError
              else
                let normal = vdiv (vmul (vdiv normal (linalg_norm normal)) height) 2;
                    p1 = vadd (vadd center normal) axis;
                    p2 = vsub (vadd center normal) axis;
                    p3 = vsub (vsub center normal) axis;
                    p4 = vadd (vsub center normal) axis
                in Inr (p1, p2, p3, p4))
      | _ \<Rightarrow> Inl ValueError)"

text \<open>
  The image is the list of the lines drawn on it: end points, colour, thickness.
\<close>

type_synonym line = "(int \<times> int) \<times> (int \<times> int) \<times> (nat \<times> nat \<times> nat) \<times> nat"

definition cv2_line ::
  "line list \<Rightarrow> int \<times> int \<Rightarrow> int \<times> int \<Rightarrow> nat \<times> nat \<times> nat \<Rightarrow> nat \<Rightarrow> line list" where
  "cv2_line img p q color thickness = img @ [(p, q, color, thickness)]"

definition int_point :: "point \<Rightarrow> int \<times> int" where
  "int_point p = (py_int (fst p), py_int (snd p))"

definition RectGrasp_to_opencv_image :: "real list \<Rightarrow> line list \<Rightarrow> error + line list" where
  "RectGrasp_to_opencv_image arr opencv_rgb =
     ebind (to_opencv_image_corners arr) (\<lambda>(p1, p2, p3, p4).
       let img = cv2_line opencv_rgb (int_point p1) (int_point p2) (0, 0, 255) 1;
           img = cv2_line img (int_point p2) (int_point p3) (255, 0, 0) 3;
           img = cv2_line img (int_point p3) (int_point p4) (0, 0, 255) 1;
           img = cv2_line img (int_point p4) (int_point p1) (255, 0, 0) 3
       in Inr img)"

section \<open>Memory: reads, writes and fresh buffers\<close>

lemma nd_get_cong: "s ! base a = s' ! base a \<Longrightarrow> nd_get s a = nd_get s' a"
  by (induction a) simp_all

lemma nd_get_append: "base a < length s \<Longrightarrow> nd_get (s @ xs) a = nd_get s a"
  by (rule nd_get_cong) (simp add: nth_append)

lemma nd_get_fresh: "nd_get (s @ [v]) (Own (length s)) = v"
  by simp

lemma nd_assign_base: "\<exists>x. nd_assign s a v = s[base a := x]"
  by (induction a arbitrary: v) auto

lemma nd_assign_frame: "base a \<noteq> base a' \<Longrightarrow> nd_get (nd_assign s a' v) a = nd_get s a"
proof -
  assume d: "base a \<noteq> base a'"
  obtain x where x: "nd_assign s a' v = s[base a' := x]"
    using nd_assign_base by blast
  have "s[base a' := x] ! base a = s ! base a"
    using d by simp
  then show ?thesis
    unfolding x by (rule nd_get_cong)
qed

section \<open>Slices\<close>

lemma slice_2_5: "5 \<le> n \<Longrightarrow> slice_indices n (Some 2) (Some 5) None = Inr [2, 3, 4]"
  by (simp add: slice_indices_def slice_adjust_def Let_def upt_rec numeral_eq_Suc)

lemma map_nth_upt_take: "k \<le> length t \<Longrightarrow> map (\<lambda>j. t ! j) [0..<k] = take k t"
  by (simp add: list_eq_iff_nth_eq)

lemma slice_prefix:
  "slice_indices n None (Some m) None = Inr [0..<nat (slice_adjust (int n) 1 m)]"
  by (auto simp add: slice_indices_def slice_adjust_def Let_def intro!: nth_equalityI)

lemma slice_adjust_prefix_le: "nat (slice_adjust (int n) 1 m) \<le> n"
  by (auto simp add: slice_adjust_def)

lemma slice_adjust_prefix_nonneg:
  "0 \<le> m \<Longrightarrow> m \<le> int n \<Longrightarrow> nat (slice_adjust (int n) 1 m) = nat m"
  by (simp add: slice_adjust_def)

section \<open>Construction of a group from a list\<close>

text \<open>
  C2.  The claim: a GraspGroup built from a list of Grasp instances has one row per
  grasp, in the order of the list, and likewise a RectGraspGroup built from a list of
  RectGrasp instances.  The code does otherwise: the loop of \<open>__init__\<close> runs over the
  tuple of arguments, so the list itself is taken for a grasp, and building a group
  from any list, the empty one included, raises AttributeError.
\<close>

theorem group_init_of_list_raises:
  "fst (GraspGroup_init [ArgList grasps] s) = Inl AttributeError
   \<and> fst (RectGraspGroup_init [ArgList rect_grasps] s) = Inl AttributeError"
  by (simp add: GraspGroup_init_def RectGraspGroup_init_def np_new_def)

section \<open>The unimplemented conversions\<close>

text \<open>
  C3.  The claim: \<open>RectGrasp.to_grasp\<close> and \<open>RectGraspGroup.to_grasp_group\<close> report a
  "not implemented" condition instead of returning a value.  Both are \<open>pass\<close>: for
  every object and all arguments they return None and raise nothing.
\<close>

theorem back_projection_returns_none:
  "RectGrasp_to_grasp self camera_intrinsics depths depth_method = Inr PyNone
   \<and> RectGraspGroup_to_grasp_group self' camera_intrinsics' depths' depth_method' = Inr PyNone"
  by (simp add: RectGrasp_to_grasp_def RectGraspGroup_to_grasp_group_def)

theorem back_projection_raises_counterexample:
  "\<not> (\<exists>e. RectGrasp_to_grasp \<lparr>rect_grasp_array = Own 0\<rparr> () () () = Inl e)
   \<and> \<not> (\<exists>e. RectGraspGroup_to_grasp_group \<lparr>rect_grasp_group_array = Own 0\<rparr> () () () = Inl e)"
  by (simp add: RectGrasp_to_grasp_def RectGraspGroup_to_grasp_group_def)

section \<open>Slicing a group\<close>

text \<open>
  C6.  For a group whose table has at least five rows, \<open>g[2:5]\<close> is a group of the rows
  2, 3 and 4 in that order, in a buffer of its own: the table of \<open>g\<close> is as before, and
  it stays so after any assignment to the new group's array or to any view of it.  The
  same holds for RectGraspGroup.
\<close>

theorem getitem_slice_2_5_deep_copy:
  "(nd_get s (grasp_group_array g) = A2 c t \<and> 5 \<le> length t
      \<and> base (grasp_group_array g) < length s
    \<longrightarrow> (\<exists>g' s'.
          GraspGroup_getitem float32 g (IndexSlice (Some 2) (Some 5) None) s
            = (Inr (ItemGraspGroup g'), s')
          \<and> nd_get s' (grasp_group_array g') = A2 c [t ! 2, t ! 3, t ! 4]
          \<and> nd_get s' (grasp_group_array g) = A2 c t
          \<and> (\<forall>a v. base a = base (grasp_group_array g')
                \<longrightarrow> nd_get (nd_assign s' a v) (grasp_group_array g) = A2 c t)))
   \<and> (nd_get s (rect_grasp_group_array r) = A2 d u \<and> 5 \<le> length u
        \<and> base (rect_grasp_group_array r) < length s
      \<longrightarrow> (\<exists>r' s'.
            RectGraspGroup_getitem float32 r (IndexSlice (Some 2) (Some 5) None) s
              = (Inr (ItemRectGraspGroup r'), s')
            \<and> nd_get s' (rect_grasp_group_array r') = A2 d [u ! 2, u ! 3, u ! 4]
            \<and> nd_get s' (rect_grasp_group_array r) = A2 d u
            \<and> (\<forall>a v. base a = base (rect_grasp_group_array r')
                  \<longrightarrow> nd_get (nd_assign s' a v) (rect_grasp_group_array r) = A2 d u)))"
  by (simp add: GraspGroup_init_def RectGraspGroup_init_def np_new_def nd_getitem_slice_def
      deepcopy_def nd_get_append slice_2_5 nd_assign_frame nth_append)

theorem getitem_slice_2_5_deep_copy_witness:
  "(\<exists>g' s'.
      GraspGroup_getitem id \<lparr>grasp_group_array = Own 0\<rparr> (IndexSlice (Some 2) (Some 5) None)
        [A2 17 (map (replicate 17) [0, 1, 2, 3, 4]), A2 7 (map (replicate 7) [5, 6, 7, 8, 9, 10])]
        = (Inr (ItemGraspGroup g'), s')
      \<and> nd_get s' (grasp_group_array g')
          = A2 17 [(map (replicate 17) [0, 1, 2, 3, 4]) ! 2, (map (replicate 17) [0, 1, 2, 3, 4]) ! 3,
                   (map (replicate 17) [0, 1, 2, 3, 4]) ! 4]
      \<and> nd_get s' (grasp_group_array \<lparr>grasp_group_array = Own 0\<rparr>)
          = A2 17 (map (replicate 17) [0, 1, 2, 3, 4])
      \<and> (\<forall>a v. base a = base (grasp_group_array g')
            \<longrightarrow> nd_get (nd_assign s' a v) (grasp_group_array \<lparr>grasp_group_array = Own 0\<rparr>)
                  = A2 17 (map (replicate 17) [0, 1, 2, 3, 4])))
   \<and> (\<exists>r' s'.
      RectGraspGroup_getitem id \<lparr>rect_grasp_group_array = Own 1\<rparr> (IndexSlice (Some 2) (Some 5) None)
        [A2 17 (map (replicate 17) [0, 1, 2, 3, 4]), A2 7 (map (replicate 7) [5, 6, 7, 8, 9, 10])]
        = (Inr (ItemRectGraspGroup r'), s')
      \<and> nd_get s' (rect_grasp_group_array r')
          = A2 7 [(map (replicate 7) [5, 6, 7, 8, 9, 10]) ! 2, (map (replicate 7) [5, 6, 7, 8, 9, 10]) ! 3,
                  (map (replicate 7) [5, 6, 7, 8, 9, 10]) ! 4]
      \<and> nd_get s' (rect_grasp_group_array \<lparr>rect_grasp_group_array = Own 1\<rparr>)
          = A2 7 (map (replicate 7) [5, 6, 7, 8, 9, 10])
      \<and> (\<forall>a v. base a = base (rect_grasp_group_array r')
            \<longrightarrow> nd_get (nd_assign s' a v) (rect_grasp_group_array \<lparr>rect_grasp_group_array = Own 1\<rparr>)
                  = A2 7 (map (replicate 7) [5, 6, 7, 8, 9, 10])))"
proof -
  have 1: "nd_get [A2 17 (map (replicate 17) [0, 1, 2, 3, 4]), A2 7 (map (replicate 7) [5, 6, 7, 8, 9, 10])]
             (grasp_group_array \<lparr>grasp_group_array = Own 0\<rparr>) = A2 17 (map (replicate 17) [0, 1, 2, 3, 4])
           \<and> 5 \<le> length (map (replicate 17) [0, 1, 2, 3, 4])
           \<and> base (grasp_group_array \<lparr>grasp_group_array = Own 0\<rparr>)
               < length [A2 17 (map (replicate 17) [0, 1, 2, 3, 4]), A2 7 (map (replicate 7) [5, 6, 7, 8, 9, 10])]"
    by simp
  have 2: "nd_get [A2 17 (map (replicate 17) [0, 1, 2, 3, 4]), A2 7 (map (replicate 7) [5, 6, 7, 8, 9, 10])]
             (rect_grasp_group_array \<lparr>rect_grasp_group_array = Own 1\<rparr>) = A2 7 (map (replicate 7) [5, 6, 7, 8, 9, 10])
           \<and> 5 \<le> length (map (replicate 7) [5, 6, 7, 8, 9, 10])
           \<and> base (rect_grasp_group_array \<lparr>rect_grasp_group_array = Own 1\<rparr>)
               < length [A2 17 (map (replicate 17) [0, 1, 2, 3, 4]), A2 7 (map (replicate 7) [5, 6, 7, 8, 9, 10])]"
    by simp
  show ?thesis
    using 1 2 getitem_slice_2_5_deep_copy
      [where s = "[A2 17 (map (replicate 17) [0, 1, 2, 3, 4]), A2 7 (map (replicate 7) [5, 6, 7, 8, 9, 10])]"
         and g = "\<lparr>grasp_group_array = Own 0\<rparr>" and c = 17 and t = "(map (replicate 17) [0, 1, 2, 3, 4])"
         and r = "\<lparr>rect_grasp_group_array = Own 1\<rparr>" and d = 7 and u = "(map (replicate 7) [5, 6, 7, 8, 9, 10])"
         and ?float32.0 = id]
    by blast
qed

section \<open>The seven-field constructor\<close>

text \<open>
  C7.  The claim: a Grasp built from the seven fields gives the fields back through its
  accessors.  The code does otherwise for an object id that is a number:
  \<open>np.array((object_id))\<close> is 0-dimensional, \<open>np.concatenate\<close> refuses it, and the
  constructor raises ValueError whatever the other six fields are.
\<close>

theorem grasp_init_seven_fields_raises:
  "fst (Grasp_init float32
          (Args7 score width height depth rotation_matrix translation (PyScalar object_id)) s)
     = Inl ValueError"
  by (cases "nd_get s translation") (simp_all add: reshape_flat_def)

section \<open>Corners of the drawn rectangle\<close>

text \<open>
  C8.  For a rectangle grasp with center (0, 0), open point (10, 0) and height 4, of any
  score and object id, the corners the drawing computes are \<open>p1\<close> = (10, 2),
  \<open>p2\<close> = (-10, 2), \<open>p3\<close> = (-10, -2), \<open>p4\<close> = (10, -2): the four points (10, 2), (10, -2),
  (-10, -2), (-10, 2).
\<close>

theorem to_opencv_image_corners_example:
  "to_opencv_image_corners [0, 0, 10, 0, 4, score, object_id]
     = Inr ((10, 2), (- 10, 2), (- 10, - 2), (10, - 2))
   \<and> (\<exists>p1 p2 p3 p4.
         to_opencv_image_corners [0, 0, 10, 0, 4, score, object_id] = Inr (p1, p2, p3, p4)
         \<and> {p1, p2, p3, p4} = {(10, 2), (10, - 2), (- 10, - 2), (- 10, 2)})"
  by (auto simp add: to_opencv_image_corners_def vadd_def vsub_def vmul_def vdiv_def
      linalg_norm_def)

section \<open>Indexing a group by an integer\<close>

text \<open>
  C10.  For a GraspGroup with a 2-dimensional table and an index in range (from
  \<open>-len\<close> to \<open>len - 1\<close>, a negative one counting from the end), \<open>g[i]\<close> is a Grasp
  whose array holds row \<open>i\<close> in a buffer of its own: the table of \<open>g\<close> is as before and
  stays so after any assignment to the Grasp's array or to a view of it.
\<close>

theorem getitem_int_copies_row:
  "nd_get s (grasp_group_array g) = A2 c t \<and> - int (length t) \<le> i \<and> i < int (length t)
     \<and> base (grasp_group_array g) < length s
   \<longrightarrow> (\<exists>gr s'.
         GraspGroup_getitem float32 g (IndexInt i) s = (Inr (ItemGrasp gr), s')
         \<and> nd_get s' (grasp_array gr) = A1 (t ! nat (if i < 0 then i + int (length t) else i))
         \<and> nd_get s' (grasp_group_array g) = A2 c t
         \<and> (\<forall>a v. base a = base (grasp_array gr)
               \<longrightarrow> nd_get (nd_assign s' a v) (grasp_group_array g) = A2 c t))"
  by (simp add: nd_getitem_int_def norm_index_def deepcopy_def np_new_def nd_get_append
      nd_assign_frame)

theorem getitem_int_copies_row_witness:
  "\<exists>gr s'.
     GraspGroup_getitem id \<lparr>grasp_group_array = Own 0\<rparr> (IndexInt (- 1)) [A2 17 (map (replicate 17) [0, 1, 2 :: real])]
       = (Inr (ItemGrasp gr), s')
     \<and> nd_get s' (grasp_array gr)
         = A1 ((map (replicate 17) [0, 1, 2 :: real])
                 ! nat (if (- 1 :: int) < 0 then - 1 + int (length (map (replicate 17) [0, 1, 2 :: real]))
                        else - 1))
     \<and> nd_get s' (grasp_group_array \<lparr>grasp_group_array = Own 0\<rparr>) = A2 17 (map (replicate 17) [0, 1, 2 :: real])
     \<and> (\<forall>a v. base a = base (grasp_array gr)
           \<longrightarrow> nd_get (nd_assign s' a v) (grasp_group_array \<lparr>grasp_group_array = Own 0\<rparr>)
                 = A2 17 (map (replicate 17) [0, 1, 2 :: real]))"
proof -
  have "nd_get [A2 17 (map (replicate 17) [0, 1, 2 :: real])] (grasp_group_array \<lparr>grasp_group_array = Own 0\<rparr>)
          = A2 17 (map (replicate 17) [0, 1, 2 :: real])
        \<and> - int (length (map (replicate 17) [0, 1, 2 :: real])) \<le> - 1
        \<and> - 1 < int (length (map (replicate 17) [0, 1, 2 :: real]))
        \<and> base (grasp_group_array \<lparr>grasp_group_array = Own 0\<rparr>) < length [A2 17 (map (replicate 17) [0, 1, 2 :: real])]"
    by simp
  then show ?thesis
    using getitem_int_copies_row
      [where s = "[A2 17 (map (replicate 17) [0, 1, 2 :: real])]" and g = "\<lparr>grasp_group_array = Own 0\<rparr>" and c = 17
         and t = "(map (replicate 17) [0, 1, 2 :: real])" and i = "- 1" and ?float32.0 = id]
    by blast
qed

section \<open>Saving and loading\<close>

text \<open>
  C9.  Saving the table of a group and loading the file that was written gives a group
  whose table is the saved one, for GraspGroup and RectGraspGroup alike.  The file
  written for the path \<open>p\<close> is \<open>npy_path p\<close>: \<open>p\<close> itself when it ends in \<open>.npy\<close>.
\<close>

theorem save_then_load:
  "(\<exists>g'' s''.
      GraspGroup_from_npy g' (npy_path p) (GraspGroup_save_npy g p s fs) s' = (Inr g'', s'')
      \<and> nd_get s'' (grasp_group_array g'') = nd_get s (grasp_group_array g))
   \<and> (\<exists>r'' s''.
      RectGraspGroup_from_npy r' (npy_path q) (RectGraspGroup_save_npy r q s fs) s'
        = (Inr r'', s'')
      \<and> nd_get s'' (rect_grasp_group_array r'') = nd_get s (rect_grasp_group_array r))"
  by (simp add: GraspGroup_from_npy_def GraspGroup_save_npy_def RectGraspGroup_from_npy_def
      RectGraspGroup_save_npy_def np_save_def np_load_def np_new_def)

section \<open>Sorting by score\<close>

lemma map_fst_sort_key: "map fst (sort_key fst ps) = sort (map fst ps)"
  by (rule properties_for_sort[symmetric]) simp_all

lemma argsort_sorts: "map (\<lambda>j. xs ! j) (np_argsort xs) = sort xs"
proof -
  let ?ps = "zip xs [0..<length xs]"
  have "\<forall>p \<in> set (sort_key fst ?ps). xs ! snd p = fst p"
    by (auto simp add: set_zip)
  then have "map (\<lambda>j. xs ! j) (map snd (sort_key fst ?ps)) = map fst (sort_key fst ?ps)"
    by simp
  also have "\<dots> = sort (map fst ?ps)"
    by (rule map_fst_sort_key)
  finally show ?thesis
    by (simp add: np_argsort_def)
qed

lemma argsort_range: "set (np_argsort xs) \<subseteq> {..<length xs}"
  by (auto simp add: np_argsort_def set_zip)

lemma column_of_selected:
  assumes "set js \<subseteq> {..<length t}"
  shows "map (\<lambda>r. r ! k) (map (\<lambda>j. t ! j) js) = map (\<lambda>j. map (\<lambda>r. r ! k) t ! j) js"
  using assms by (auto simp add: subset_iff)

lemma sorted_scores:
  "map (\<lambda>r. r ! k) (map (\<lambda>j. t ! j) (np_argsort (map (\<lambda>r. r ! k) t)))
     = sort (map (\<lambda>r. r ! k) t)"
proof -
  let ?xs = "map (\<lambda>r. r ! k) t"
  have "set (np_argsort ?xs) \<subseteq> {..<length t}"
    using argsort_range [of ?xs] by simp
  then have "map (\<lambda>r. r ! k) (map (\<lambda>j. t ! j) (np_argsort ?xs))
      = map (\<lambda>j. ?xs ! j) (np_argsort ?xs)"
    by (rule column_of_selected)
  also have "\<dots> = sort ?xs"
    by (rule argsort_sorts)
  finally show ?thesis .
qed

lemma sorted_scores_rev:
  "map (\<lambda>r. r ! k) (map (\<lambda>j. t ! j) (rev (np_argsort (map (\<lambda>r. r ! k) t))))
     = rev (sort (map (\<lambda>r. r ! k) t))"
proof -
  let ?js = "np_argsort (map (\<lambda>r. r ! k) t)"
  have "map (\<lambda>r. r ! k) (map (\<lambda>j. t ! j) (rev ?js))
      = rev (map (\<lambda>r. r ! k) (map (\<lambda>j. t ! j) ?js))"
    by (simp only: rev_map)
  then show ?thesis
    by (simp only: sorted_scores)
qed

lemma sort_by_score_scores:
  assumes "nd_get s (grasp_group_array g) = A2 c t" "0 < c"
  shows "\<exists>g' s'. GraspGroup_sort_by_score g reverse s = (Inr g', s')
     \<and> GraspGroup_scores g' s'
         = Inr (if reverse then sort (map (\<lambda>r. r ! 0) t) else rev (sort (map (\<lambda>r. r ! 0) t)))"
  using assms sorted_scores [of 0 t, simplified] sorted_scores_rev [of 0 t, simplified]
  by (simp add: GraspGroup_sort_by_score_def GraspGroup_scores_def np_column_def np_new_def
      Let_def)

text \<open>
  C1.  The claim: after \<open>sort_by_score\<close> with \<open>reverse=True\<close> the scores are in
  descending order, with \<open>reverse=False\<close> in ascending order (as the docstring says).
  The code reverses the ascending order of \<open>argsort\<close> when \<open>reverse\<close> is false, so it
  does the opposite: on a group with the scores 1, 2 the call with \<open>reverse=True\<close>
  leaves 1, 2 and the call with \<open>reverse=False\<close> gives 2, 1, in both classes.
\<close>

theorem sort_by_score_order_is_inverted:
  "(\<exists>g' s'.
      GraspGroup_sort_by_score \<lparr>grasp_group_array = Own 0\<rparr> True [A2 17 [1 # replicate 16 0, 2 # replicate 16 0],
         A2 7 [replicate 5 0 @ [1, 0], replicate 5 0 @ [2, 0]]]
        = (Inr g', s')
      \<and> np_column 0 (nd_get s' (grasp_group_array g')) = Inr [1, 2])
   \<and> (\<exists>g' s'.
      GraspGroup_sort_by_score \<lparr>grasp_group_array = Own 0\<rparr> False [A2 17 [1 # replicate 16 0, 2 # replicate 16 0],
         A2 7 [replicate 5 0 @ [1, 0], replicate 5 0 @ [2, 0]]]
        = (Inr g', s')
      \<and> np_column 0 (nd_get s' (grasp_group_array g')) = Inr [2, 1])
   \<and> (\<exists>r' s'.
      RectGraspGroup_sort_by_score \<lparr>rect_grasp_group_array = Own 1\<rparr> True [A2 17 [1 # replicate 16 0, 2 # replicate 16 0],
         A2 7 [replicate 5 0 @ [1, 0], replicate 5 0 @ [2, 0]]]
        = (Inr r', s')
      \<and> np_column 5 (nd_get s' (rect_grasp_group_array r')) = Inr [1, 2])
   \<and> (\<exists>r' s'.
      RectGraspGroup_sort_by_score \<lparr>rect_grasp_group_array = Own 1\<rparr> False [A2 17 [1 # replicate 16 0, 2 # replicate 16 0],
         A2 7 [replicate 5 0 @ [1, 0], replicate 5 0 @ [2, 0]]]
        = (Inr r', s')
      \<and> np_column 5 (nd_get s' (rect_grasp_group_array r')) = Inr [2, 1])"
  by (simp add: GraspGroup_sort_by_score_def RectGraspGroup_sort_by_score_def np_column_def
      np_argsort_def np_new_def nth_append)

section \<open>Random samples\<close>

lemma length_shuffle_loop: "length (shuffle_loop rng i xs) = length xs"
  by (induction i arbitrary: xs) (simp_all add: Let_def)

lemma mset_shuffle_loop: "i < length xs \<Longrightarrow> mset (shuffle_loop rng i xs) = mset xs"
proof (induction i arbitrary: xs)
  case 0
  then show ?case by simp
next
  case (Suc i)
  let ?j = "rng (Suc i) mod Suc (Suc i)"
  have j: "?j < length xs"
  proof -
    have "?j < Suc (Suc i)" by simp
    with Suc.prems show ?thesis by linarith
  qed
  have "mset (xs[Suc i := xs ! ?j, ?j := xs ! Suc i]) = mset xs"
    using j Suc.prems by (rule mset_swap)
  moreover have "i < length (xs[Suc i := xs ! ?j, ?j := xs ! Suc i])"
    using Suc.prems by simp
  ultimately show ?case
    using Suc.IH by (simp add: Let_def)
qed

lemma mset_shuffle: "mset (shuffle rng xs) = mset xs"
  by (cases xs) (simp_all add: shuffle_def mset_shuffle_loop)

lemma length_shuffle: "length (shuffle rng xs) = length xs"
  by (simp add: shuffle_def length_shuffle_loop)

lemma mset_take_subset: "mset (take k xs) \<subseteq># mset xs"
proof -
  have "mset xs = mset (take k xs) + mset (drop k xs)"
    by (metis append_take_drop_id mset_append)
  then show ?thesis by simp
qed

lemma take_prefix_of_shuffle:
  "map (\<lambda>j. shuffle rng t ! j) [0..<nat (slice_adjust (int (length t)) 1 n)]
     = take (nat (slice_adjust (int (length t)) 1 n)) (shuffle rng t)"
  by (rule map_nth_upt_take) (simp add: length_shuffle slice_adjust_prefix_le)

lemma GraspGroup_random_sample_result:
  assumes "nd_get s (grasp_group_array g) = A2 c t" "n \<le> int (length t)"
  shows "GraspGroup_random_sample rng g n s
     = (Inr \<lparr>grasp_group_array = Own (length s + 2)\<rparr>,
        s @ [A2 c (shuffle rng t), A2 GRASP_ARRAY_LEN [],
             A2 c (take (nat (slice_adjust (int (length t)) 1 n)) (shuffle rng t))])"
  using assms
  by (simp add: GraspGroup_random_sample_def GraspGroup_len_def deepcopy_def np_new_def
      np_random_shuffle_def GraspGroup_init_def nd_getitem_slice_def slice_prefix
      nth_append length_shuffle take_prefix_of_shuffle)

lemma RectGraspGroup_random_sample_result:
  assumes "nd_get s (rect_grasp_group_array g) = A2 c t" "n \<le> int (length t)"
  shows "RectGraspGroup_random_sample rng g n s
     = (Inr \<lparr>rect_grasp_group_array = Own (length s + 2)\<rparr>,
        s @ [A2 c (shuffle rng t), A2 RECT_GRASP_ARRAY_LEN [],
             A2 c (take (nat (slice_adjust (int (length t)) 1 n)) (shuffle rng t))])"
  using assms
  by (simp add: RectGraspGroup_random_sample_def RectGraspGroup_len_def deepcopy_def np_new_def
      np_random_shuffle_def RectGraspGroup_init_def nd_getitem_slice_def slice_prefix
      nth_append length_shuffle take_prefix_of_shuffle)

lemma sample_rows:
  "mset (take k (shuffle rng t)) \<subseteq># mset t"
  using mset_take_subset [of k "shuffle rng t"] by (simp add: mset_shuffle)

text \<open>
  C4.  For a group with a 2-dimensional table of \<open>len\<close> rows and every integer \<open>n\<close>:
  with \<open>n > len\<close>, \<open>random_sample\<close> raises ValueError and the store is as before; with
  \<open>n \<le> len\<close> it returns a new group whose rows are a sub-multiset of the group's rows,
  of length exactly \<open>n\<close> when \<open>0 \<le> n\<close>, in a buffer of its own, and the group's table is
  as before.  For a negative \<open>n\<close> the length is not \<open>n\<close>: the slice \<open>[:n]\<close> drops the
  last rows.
\<close>

theorem random_sample_contract:
  "(nd_get s (grasp_group_array g) = A2 c t \<and> base (grasp_group_array g) < length s
    \<longrightarrow> (int (length t) < n \<longrightarrow> GraspGroup_random_sample rng g n s = (Inl ValueError, s))
      \<and> (n \<le> int (length t)
         \<longrightarrow> (\<exists>g' s' t'.
               GraspGroup_random_sample rng g n s = (Inr g', s')
               \<and> nd_get s' (grasp_group_array g') = A2 c t'
               \<and> mset t' \<subseteq># mset t
               \<and> (0 \<le> n \<longrightarrow> length t' = nat n)
               \<and> nd_get s' (grasp_group_array g) = A2 c t
               \<and> (\<forall>a v. base a = base (grasp_group_array g')
                     \<longrightarrow> nd_get (nd_assign s' a v) (grasp_group_array g) = A2 c t))))
   \<and> (nd_get s (rect_grasp_group_array r) = A2 d u \<and> base (rect_grasp_group_array r) < length s
      \<longrightarrow> (int (length u) < n \<longrightarrow> RectGraspGroup_random_sample rng r n s = (Inl ValueError, s))
        \<and> (n \<le> int (length u)
           \<longrightarrow> (\<exists>r' s' u'.
                 RectGraspGroup_random_sample rng r n s = (Inr r', s')
                 \<and> nd_get s' (rect_grasp_group_array r') = A2 d u'
                 \<and> mset u' \<subseteq># mset u
                 \<and> (0 \<le> n \<longrightarrow> length u' = nat n)
                 \<and> nd_get s' (rect_grasp_group_array r) = A2 d u
                 \<and> (\<forall>a v. base a = base (rect_grasp_group_array r')
                       \<longrightarrow> nd_get (nd_assign s' a v) (rect_grasp_group_array r) = A2 d u))))"
proof (intro conjI impI)
  assume "nd_get s (grasp_group_array g) = A2 c t \<and> base (grasp_group_array g) < length s"
    and "int (length t) < n"
  then show "GraspGroup_random_sample rng g n s = (Inl ValueError, s)"
    by (simp add: GraspGroup_random_sample_def GraspGroup_len_def)
next
  assume h: "nd_get s (grasp_group_array g) = A2 c t \<and> base (grasp_group_array g) < length s"
    and n: "n \<le> int (length t)"
  show "\<exists>g' s' t'.
          GraspGroup_random_sample rng g n s = (Inr g', s')
          \<and> nd_get s' (grasp_group_array g') = A2 c t'
          \<and> mset t' \<subseteq># mset t
          \<and> (0 \<le> n \<longrightarrow> length t' = nat n)
          \<and> nd_get s' (grasp_group_array g) = A2 c t
          \<and> (\<forall>a v. base a = base (grasp_group_array g')
                \<longrightarrow> nd_get (nd_assign s' a v) (grasp_group_array g) = A2 c t)"
    using h n GraspGroup_random_sample_result [of s g c t n rng]
    by (simp add: nth_append nd_get_append nd_assign_frame sample_rows length_shuffle
        slice_adjust_prefix_nonneg)
next
  assume "nd_get s (rect_grasp_group_array r) = A2 d u
      \<and> base (rect_grasp_group_array r) < length s"
    and "int (length u) < n"
  then show "RectGraspGroup_random_sample rng r n s = (Inl ValueError, s)"
    by (simp add: RectGraspGroup_random_sample_def RectGraspGroup_len_def)
next
  assume h: "nd_get s (rect_grasp_group_array r) = A2 d u
      \<and> base (rect_grasp_group_array r) < length s"
    and n: "n \<le> int (length u)"
  show "\<exists>r' s' u'.
          RectGraspGroup_random_sample rng r n s = (Inr r', s')
          \<and> nd_get s' (rect_grasp_group_array r') = A2 d u'
          \<and> mset u' \<subseteq># mset u
          \<and> (0 \<le> n \<longrightarrow> length u' = nat n)
          \<and> nd_get s' (rect_grasp_group_array r) = A2 d u
          \<and> (\<forall>a v. base a = base (rect_grasp_group_array r')
                \<longrightarrow> nd_get (nd_assign s' a v) (rect_grasp_group_array r) = A2 d u)"
    using h n RectGraspGroup_random_sample_result [of s r d u n rng]
    by (simp add: nth_append nd_get_append nd_assign_frame sample_rows length_shuffle
        slice_adjust_prefix_nonneg)
qed

theorem random_sample_contract_witness:
  "GraspGroup_random_sample (\<lambda>i. 0) \<lparr>grasp_group_array = Own 0\<rparr> 3
          [A2 17 [replicate 17 3, replicate 17 4], A2 7 [replicate 7 5, replicate 7 6]] = (Inl ValueError,
           [A2 17 [replicate 17 3, replicate 17 4], A2 7 [replicate 7 5, replicate 7 6]])
   \<and> RectGraspGroup_random_sample (\<lambda>i. 0) \<lparr>rect_grasp_group_array = Own 1\<rparr> 3
          [A2 17 [replicate 17 3, replicate 17 4], A2 7 [replicate 7 5, replicate 7 6]] = (Inl ValueError,
           [A2 17 [replicate 17 3, replicate 17 4], A2 7 [replicate 7 5, replicate 7 6]])
   \<and> (\<exists>g' s' t'.
      GraspGroup_random_sample (\<lambda>i. 0) \<lparr>grasp_group_array = Own 0\<rparr> 1
          [A2 17 [replicate 17 3, replicate 17 4], A2 7 [replicate 7 5, replicate 7 6]] = (Inr g', s')
      \<and> nd_get s' (grasp_group_array g') = A2 17 t'
      \<and> mset t' \<subseteq># mset [replicate 17 3, replicate 17 4]
      \<and> (0 \<le> (1 :: int) \<longrightarrow> length t' = nat 1)
      \<and> nd_get s' (grasp_group_array \<lparr>grasp_group_array = Own 0\<rparr>)
            = A2 17 [replicate 17 3, replicate 17 4]
      \<and> (\<forall>a v. base a = base (grasp_group_array g')
            \<longrightarrow> nd_get (nd_assign s' a v) (grasp_group_array \<lparr>grasp_group_array = Own 0\<rparr>)
            = A2 17 [replicate 17 3, replicate 17 4]))
   \<and> (\<exists>r' s' u'.
      RectGraspGroup_random_sample (\<lambda>i. 0) \<lparr>rect_grasp_group_array = Own 1\<rparr> 1
          [A2 17 [replicate 17 3, replicate 17 4], A2 7 [replicate 7 5, replicate 7 6]] = (Inr r', s')
      \<and> nd_get s' (rect_grasp_group_array r') = A2 7 u'
      \<and> mset u' \<subseteq># mset [replicate 7 5, replicate 7 6]
      \<and> (0 \<le> (1 :: int) \<longrightarrow> length u' = nat 1)
      \<and> nd_get s' (rect_grasp_group_array \<lparr>rect_grasp_group_array = Own 1\<rparr>)
            = A2 7 [replicate 7 5, replicate 7 6]
      \<and> (\<forall>a v. base a = base (rect_grasp_group_array r')
            \<longrightarrow> nd_get (nd_assign s' a v) (rect_grasp_group_array \<lparr>rect_grasp_group_array = Own 1\<rparr>)
            = A2 7 [replicate 7 5, replicate 7 6]))"
proof -
  have g: "nd_get
          [A2 17 [replicate 17 3, replicate 17 4], A2 7 [replicate 7 5, replicate 7 6]] (grasp_group_array \<lparr>grasp_group_array = Own 0\<rparr>)
            = A2 17 [replicate 17 3, replicate 17 4]
           \<and> base (grasp_group_array \<lparr>grasp_group_array = Own 0\<rparr>) < length
          [A2 17 [replicate 17 3, replicate 17 4], A2 7 [replicate 7 5, replicate 7 6]]"
    by simp
  have r: "nd_get
          [A2 17 [replicate 17 3, replicate 17 4], A2 7 [replicate 7 5, replicate 7 6]] (rect_grasp_group_array \<lparr>rect_grasp_group_array = Own 1\<rparr>)
            = A2 7 [replicate 7 5, replicate 7 6]
           \<and> base (rect_grasp_group_array \<lparr>rect_grasp_group_array = Own 1\<rparr>) < length
          [A2 17 [replicate 17 3, replicate 17 4], A2 7 [replicate 7 5, replicate 7 6]]"
    by simp
  have big: "int (length [replicate 17 (3 :: real), replicate 17 4]) < 3"
    "int (length [replicate 7 (5 :: real), replicate 7 6]) < 3"
    by simp_all
  have small: "1 \<le> int (length [replicate 17 (3 :: real), replicate 17 4])"
    "1 \<le> int (length [replicate 7 (5 :: real), replicate 7 6])"
    by simp_all
  have e1: "GraspGroup_random_sample (\<lambda>i. 0) \<lparr>grasp_group_array = Own 0\<rparr> 3
          [A2 17 [replicate 17 3, replicate 17 4], A2 7 [replicate 7 5, replicate 7 6]] = (Inl ValueError,
           [A2 17 [replicate 17 3, replicate 17 4], A2 7 [replicate 7 5, replicate 7 6]])"
    using g big(1) random_sample_contract
      [where s = "[A2 17 [replicate 17 3, replicate 17 4], A2 7 [replicate 7 5, replicate 7 6]]"
         and g = "\<lparr>grasp_group_array = Own 0\<rparr>" and c = 17
         and t = "[replicate 17 3, replicate 17 4]"
         and r = "\<lparr>rect_grasp_group_array = Own 1\<rparr>" and d = 7
         and u = "[replicate 7 5, replicate 7 6]" and n = 3 and rng = "(\<lambda>i. 0)"]
    by blast
  have e2: "RectGraspGroup_random_sample (\<lambda>i. 0) \<lparr>rect_grasp_group_array = Own 1\<rparr> 3
          [A2 17 [replicate 17 3, replicate 17 4], A2 7 [replicate 7 5, replicate 7 6]] = (Inl ValueError,
           [A2 17 [replicate 17 3, replicate 17 4], A2 7 [replicate 7 5, replicate 7 6]])"
    using r big(2) random_sample_contract
      [where s = "[A2 17 [replicate 17 3, replicate 17 4], A2 7 [replicate 7 5, replicate 7 6]]"
         and g = "\<lparr>grasp_group_array = Own 0\<rparr>" and c = 17
         and t = "[replicate 17 3, replicate 17 4]"
         and r = "\<lparr>rect_grasp_group_array = Own 1\<rparr>" and d = 7
         and u = "[replicate 7 5, replicate 7 6]" and n = 3 and rng = "(\<lambda>i. 0)"]
    by blast
  have o1: "(\<exists>g' s' t'.
      GraspGroup_random_sample (\<lambda>i. 0) \<lparr>grasp_group_array = Own 0\<rparr> 1
          [A2 17 [replicate 17 3, replicate 17 4], A2 7 [replicate 7 5, replicate 7 6]] = (Inr g', s')
      \<and> nd_get s' (grasp_group_array g') = A2 17 t'
      \<and> mset t' \<subseteq># mset [replicate 17 3, replicate 17 4]
      \<and> (0 \<le> (1 :: int) \<longrightarrow> length t' = nat 1)
      \<and> nd_get s' (grasp_group_array \<lparr>grasp_group_array = Own 0\<rparr>)
            = A2 17 [replicate 17 3, replicate 17 4]
      \<and> (\<forall>a v. base a = base (grasp_group_array g')
            \<longrightarrow> nd_get (nd_assign s' a v) (grasp_group_array \<lparr>grasp_group_array = Own 0\<rparr>)
            = A2 17 [replicate 17 3, replicate 17 4]))"
    using g small(1) random_sample_contract
      [where s = "[A2 17 [replicate 17 3, replicate 17 4], A2 7 [replicate 7 5, replicate 7 6]]"
         and g = "\<lparr>grasp_group_array = Own 0\<rparr>" and c = 17
         and t = "[replicate 17 3, replicate 17 4]"
         and r = "\<lparr>rect_grasp_group_array = Own 1\<rparr>" and d = 7
         and u = "[replicate 7 5, replicate 7 6]" and n = 1 and rng = "(\<lambda>i. 0)"]
    by blast
  have o2: "(\<exists>r' s' u'.
      RectGraspGroup_random_sample (\<lambda>i. 0) \<lparr>rect_grasp_group_array = Own 1\<rparr> 1
          [A2 17 [replicate 17 3, replicate 17 4], A2 7 [replicate 7 5, replicate 7 6]] = (Inr r', s')
      \<and> nd_get s' (rect_grasp_group_array r') = A2 7 u'
      \<and> mset u' \<subseteq># mset [replicate 7 5, replicate 7 6]
      \<and> (0 \<le> (1 :: int) \<longrightarrow> length u' = nat 1)
      \<and> nd_get s' (rect_grasp_group_array \<lparr>rect_grasp_group_array = Own 1\<rparr>)
            = A2 7 [replicate 7 5, replicate 7 6]
      \<and> (\<forall>a v. base a = base (rect_grasp_group_array r')
            \<longrightarrow> nd_get (nd_assign s' a v) (rect_grasp_group_array \<lparr>rect_grasp_group_array = Own 1\<rparr>)
            = A2 7 [replicate 7 5, replicate 7 6]))"
    using r small(2) random_sample_contract
      [where s = "[A2 17 [replicate 17 3, replicate 17 4], A2 7 [replicate 7 5, replicate 7 6]]"
         and g = "\<lparr>grasp_group_array = Own 0\<rparr>" and c = 17
         and t = "[replicate 17 3, replicate 17 4]"
         and r = "\<lparr>rect_grasp_group_array = Own 1\<rparr>" and d = 7
         and u = "[replicate 7 5, replicate 7 6]" and n = 1 and rng = "(\<lambda>i. 0)"]
    by blast
  show ?thesis
    using e1 e2 o1 o2 by blast
qed

text \<open>
  The claim as stated fails at \<open>n = -1\<close> on a group of two rows: \<open>n\<close> does not exceed
  the length, the call succeeds, and the sample has one row.
\<close>

theorem random_sample_negative_counterexample:
  "- 1 \<le> int (length [replicate 17 (3 :: real), replicate 17 4])
   \<and> (\<exists>g' s'.
        GraspGroup_random_sample (\<lambda>i. 0) \<lparr>grasp_group_array = Own 0\<rparr> (- 1) [A2 17 [replicate 17 3, replicate 17 4]] = (Inr g', s')
        \<and> GraspGroup_len g' s' = Inr 1
        \<and> int 1 \<noteq> - 1)"
  using GraspGroup_random_sample_result
    [of "[A2 17 [replicate 17 3, replicate 17 4]]" "\<lparr>grasp_group_array = Own 0\<rparr>" 17 "[replicate 17 3, replicate 17 4]" "- 1" "(\<lambda>i. 0)"]
  by (simp add: GraspGroup_len_def slice_adjust_def length_shuffle)

section \<open>From grasps to rectangles\<close>








lemma float32_0_99_nearest:
  "float32_0_99 * 2 ^ 24 = 16609444 \<and> \<bar>float32_0_99 - 99 / 100\<bar> < 1 / 2 ^ 25
   \<and> 1 / 2 \<le> float32_0_99 \<and> float32_0_99 < 1"
  by (simp add: float32_0_99_def)







end
